theory Spec2Isabelle
  imports Main
begin

section \<open>Data model (types.ts, and the shapes App.tsx builds)\<close>

text \<open>
  The quiz application keeps its state in React hooks of one component. The scoring
  engine is the body of the \<^verbatim>\<open>localSummary\<close> memo, the fallback table sits inside
  \<^verbatim>\<open>runDiagnosis\<close>, and the persona lookup is the \<^verbatim>\<open>activePersona\<close> memo.

  JavaScript numbers are modelled as unbounded integers: question ids and option values
  are small integers, for which the double arithmetic of the source is exact. The
  Chinese category and level literals of the source are given ASCII constructor names.
\<close>

text \<open>\<^verbatim>\<open>Category\<close> of App.tsx: the four literals, in the order of the \<^verbatim>\<open>categories\<close>
  array (complexion, hairstyle, outfit strategy, social image).\<close>

datatype Category = Complexion | Hairstyle | Outfit | SocialImage

text \<open>The traffic-light level: red, yellow, green.\<close>

datatype Level = RedLight | YellowLight | GreenLight

datatype Step = Hero | Quiz | Diagnosing | Result

text \<open>\<^verbatim>\<open>Question\<close> (types.ts); the category type is a parameter because the older
  variant of the application uses another set of four categories.\<close>

record 'c Question =
  id_q :: int
  category_q :: 'c
  text_q :: string

record DimensionResult =
  category :: Category
  score :: int
  level :: Level
  color :: string
  description :: string
  suggestion :: string

record Summary =
  summary :: "DimensionResult list"
  totalScore :: int

text \<open>An entry of \<^verbatim>\<open>CATEGORY_INFO\<close>: a description and one suggestion per level. The
  table itself lives in constants.ts and is a parameter of the model; it is indexed by
  the \<^verbatim>\<open>Category\<close> type, so every category has an entry.\<close>

record CategoryInfo =
  description_info :: string
  suggestions :: "Level \<Rightarrow> string"

text \<open>\<^verbatim>\<open>AiReport\<close>: only the persona id is kept. The seven prose fields carry text
  for display and take no part in any computation.\<close>

record AiReport =
  selectedPersonaId :: string

text \<open>An entry of \<^verbatim>\<open>PERSONAS\<close> (constants.ts), with the fields App.tsx reads.\<close>

record Persona =
  id_p :: string
  title :: string
  subtitle :: string
  tags :: "string list"
  imageUrl :: string

text \<open>The component state the engine's closures can see: the \<^verbatim>\<open>useState\<close> cells and
  the two \<^verbatim>\<open>useRef\<close> cells that \<^verbatim>\<open>runDiagnosis\<close> writes. The progress-bar counter and
  the chart handles are left out.\<close>

record AppState =
  step :: Step
  currentIdx :: nat
  isIntroMode :: bool
  answers :: "int \<rightharpoonup> int"
  aiAnalysis :: "AiReport option"
  isAiLoading :: bool
  customApiKey :: string
  showKeyInput :: bool
  aiFetchingRef :: bool
  lastFetchTimeRef :: int
  lastError :: string

section \<open>The summary computation (App.tsx, \<^verbatim>\<open>localSummary\<close>)\<close>

text \<open>\<^verbatim>\<open>val === -1 ? 0 : (val || 0)\<close> for \<^verbatim>\<open>val = answers[q.id]\<close>: a missing key reads
  as \<^verbatim>\<open>undefined\<close> (here \<open>None\<close>), and \<^verbatim>\<open>||\<close> replaces the falsy values
  \<^verbatim>\<open>undefined\<close> and \<^verbatim>\<open>0\<close> by \<^verbatim>\<open>0\<close>.\<close>

definition answerValue :: "int option \<Rightarrow> int" where
  "answerValue val =
     (if val = Some (- 1) then 0
      else (case val of None \<Rightarrow> 0 | Some v \<Rightarrow> if v = 0 then 0 else v))"

definition categories :: "Category list" where
  "categories = [Complexion, Hairstyle, Outfit, SocialImage]"

text \<open>\<^verbatim>\<open>QUESTIONS.filter(q => q.category === cat)\<close>\<close>

definition catQuestions :: "'c Question list \<Rightarrow> 'c \<Rightarrow> 'c Question list" where
  "catQuestions QUESTIONS cat = filter (\<lambda>q. category_q q = cat) QUESTIONS"

text \<open>\<^verbatim>\<open>catQuestions.reduce((acc, q) => acc + ..., 0)\<close>: a left fold from 0.\<close>

definition catScore :: "'c Question list \<Rightarrow> (int \<rightharpoonup> int) \<Rightarrow> 'c \<Rightarrow> int" where
  "catScore QUESTIONS ans cat =
     foldl (\<lambda>acc q. acc + answerValue (ans (id_q q))) 0 (catQuestions QUESTIONS cat)"

text \<open>The level and colour assignment: red by default, green from 12, yellow from 7.\<close>

definition levelOf :: "int \<Rightarrow> Level" where
  "levelOf sc = (if sc \<ge> 12 then GreenLight else if sc \<ge> 7 then YellowLight else RedLight)"

definition colorOf :: "int \<Rightarrow> string" where
  "colorOf sc = (if sc \<ge> 12 then ''#22c55e'' else if sc \<ge> 7 then ''#f97316'' else ''#ef4444'')"

text \<open>The callback of \<^verbatim>\<open>categories.map\<close>: one result per category.\<close>

definition dimensionResult ::
  "Category Question list \<Rightarrow> (Category \<Rightarrow> CategoryInfo) \<Rightarrow> (int \<rightharpoonup> int) \<Rightarrow> Category
     \<Rightarrow> DimensionResult" where
  "dimensionResult QUESTIONS CATEGORY_INFO ans cat =
     (let sc = catScore QUESTIONS ans cat
      in \<lparr> category = cat, score = sc, level = levelOf sc, color = colorOf sc,
           description = description_info (CATEGORY_INFO cat),
           suggestion = suggestions (CATEGORY_INFO cat) (levelOf sc) \<rparr>)"

text \<open>The memo: \<^verbatim>\<open>null\<close> (here \<open>None\<close>) outside the two scoring steps, otherwise the
  four results and their total, again a left fold from 0.\<close>

definition localSummary ::
  "Category Question list \<Rightarrow> (Category \<Rightarrow> CategoryInfo) \<Rightarrow> AppState \<Rightarrow> Summary option" where
  "localSummary QUESTIONS CATEGORY_INFO st =
     (if step st \<noteq> Result \<and> step st \<noteq> Diagnosing then None
      else
        let sm = map (dimensionResult QUESTIONS CATEGORY_INFO (answers st)) categories
        in Some \<lparr> summary = sm, totalScore = foldl (\<lambda>acc curr. acc + score curr) 0 sm \<rparr>)"

section \<open>The fallback persona (App.tsx, inside \<^verbatim>\<open>runDiagnosis\<close>)\<close>

text \<open>The \<^verbatim>\<open>let fallbackId\<close> cascade over \<^verbatim>\<open>localSummary.totalScore\<close>.\<close>

definition fallbackId :: "int \<Rightarrow> string" where
  "fallbackId tot =
     (if tot \<ge> 48 then ''charmer''
      else if tot \<ge> 38 then ''statue''
      else if tot \<le> 20 then ''pioneer''
      else ''neighbor'')"

definition fallbackAnalysis :: "Summary \<Rightarrow> AiReport" where
  "fallbackAnalysis ls = \<lparr> selectedPersonaId = fallbackId (totalScore ls) \<rparr>"

text \<open>\<^verbatim>\<open>runDiagnosis(forceFallback, overrideKey)\<close> up to the point where it either returns
  or goes on to call the text service. \<open>now\<close> is the reading of \<^verbatim>\<open>Date.now()\<close>. The
  forced path ends in a timer callback that stores the fallback report; \<open>Returned\<close> holds the
  state once that callback has run. The network path is outside the model: \<open>CallsAi\<close>
  holds the state with which it is entered.\<close>

datatype DiagnosisOutcome = Returned AppState | CallsAi AppState

definition runDiagnosis ::
  "Category Question list \<Rightarrow> (Category \<Rightarrow> CategoryInfo) \<Rightarrow> bool \<Rightarrow> string \<Rightarrow> int
     \<Rightarrow> AppState \<Rightarrow> DiagnosisOutcome" where
  "runDiagnosis QUESTIONS CATEGORY_INFO forceFallback overrideKey now st =
     (case localSummary QUESTIONS CATEGORY_INFO st of
        None \<Rightarrow> Returned st
      | Some ls \<Rightarrow>
          if aiFetchingRef st \<and> \<not> forceFallback \<and> overrideKey = [] then Returned st
          else if \<not> forceFallback \<and> overrideKey = [] \<and> now - lastFetchTimeRef st < 2000
          then Returned st
          else
            let st1 = st\<lparr> aiFetchingRef := True, lastFetchTimeRef := now, isAiLoading := True,
                           lastError := [], showKeyInput := False \<rparr>
            in if forceFallback
               then Returned (st1\<lparr> aiAnalysis := Some (fallbackAnalysis ls),
                                   isAiLoading := False, aiFetchingRef := False \<rparr>)
               else CallsAi st1)"

section \<open>The persona lookup (\<^verbatim>\<open>activePersona\<close>, and \<^verbatim>\<open>sendResultsToWebhook\<close>)\<close>

text \<open>Strings are lists of code units below 256, read as Latin-1. On that range
  \<^verbatim>\<open>toLowerCase\<close> moves A-Z and the accented capitals (0xC0-0xDE without the
  multiplication sign 0xD7) up by 32, and \<^verbatim>\<open>trim\<close> strips tab, line feed, vertical tab,
  form feed, carriage return, space and the no-break space from both ends.\<close>

definition lowerChar :: "char \<Rightarrow> char" where
  "lowerChar c =
     (let n = (of_char c :: nat)
      in if (65 \<le> n \<and> n \<le> 90) \<or> (192 \<le> n \<and> n \<le> 222 \<and> n \<noteq> 215)
         then char_of (n + 32) else c)"

definition toLowerCase :: "string \<Rightarrow> string" where
  "toLowerCase s = map lowerChar s"

definition isWhiteSpace :: "char \<Rightarrow> bool" where
  "isWhiteSpace c = ((of_char c :: nat) \<in> {9, 10, 11, 12, 13, 32, 160})"

definition trim :: "string \<Rightarrow> string" where
  "trim s = rev (dropWhile isWhiteSpace (rev (dropWhile isWhiteSpace s)))"

text \<open>\<^verbatim>\<open>xs[i]\<close>: \<^verbatim>\<open>undefined\<close> (here \<open>None\<close>) past the end.\<close>

definition index :: "'a list \<Rightarrow> nat \<Rightarrow> 'a option" where
  "index xs i = (if i < length xs then Some (xs ! i) else None)"

text \<open>\<^verbatim>\<open>a || b\<close> on values that are an object or \<^verbatim>\<open>undefined\<close>.\<close>

definition orElse :: "'a option \<Rightarrow> 'a option \<Rightarrow> 'a option" where
  "orElse a b = (case a of Some x \<Rightarrow> Some x | None \<Rightarrow> b)"

definition normalizedId :: "string \<Rightarrow> string" where
  "normalizedId rawId = trim (toLowerCase rawId)"

definition activePersona :: "Persona list \<Rightarrow> AppState \<Rightarrow> Persona option" where
  "activePersona PERSONAS st =
     (case aiAnalysis st of
        None \<Rightarrow> index PERSONAS 5
      | Some report \<Rightarrow>
          let found = find (\<lambda>p. id_p p = normalizedId (selectedPersonaId report)) PERSONAS
          in orElse found (index PERSONAS 5))"

text \<open>The lookup of \<^verbatim>\<open>sendResultsToWebhook\<close> in the later variants: an empty id reads
  as \<^verbatim>\<open>'neighbor'\<close>, and the default is the \<^verbatim>\<open>'neighbor'\<close> entry, then entry 3.\<close>

definition personaData :: "Persona list \<Rightarrow> AiReport \<Rightarrow> Persona option" where
  "personaData PERSONAS report =
     (let nid = (if selectedPersonaId report \<noteq> [] then normalizedId (selectedPersonaId report)
                 else ''neighbor'')
      in orElse (find (\<lambda>p. id_p p = nid) PERSONAS)
           (orElse (find (\<lambda>p. id_p p = ''neighbor'') PERSONAS) (index PERSONAS 3)))"

text \<open>The six persona ids, as the prompt text of \<^verbatim>\<open>runDiagnosis\<close> lists them for the
  text service.\<close>

definition personaIds :: "string list" where
  "personaIds = [''charmer'', ''statue'', ''hustler'', ''neighbor'', ''sage'', ''pioneer'']"

section \<open>The older variant (four questions per category, total 48)\<close>

text \<open>Its four categories: appearance, social image, action and interaction, mindset and
  habits. Its results carry no colour.\<close>

datatype Category_part002 = Appearance | SocialPresence | ActionInteraction | MindsetHabits

record DimensionResult_part002 =
  category_v :: Category_part002
  score_v :: int
  level_v :: Level
  description_v :: string
  suggestion_v :: string

record Summary_part002 =
  summary_v :: "DimensionResult_part002 list"
  totalScore_v :: int

definition categories_part002 :: "Category_part002 list" where
  "categories_part002 = [Appearance, SocialPresence, ActionInteraction, MindsetHabits]"

definition levelOf_part002 :: "int \<Rightarrow> Level" where
  "levelOf_part002 sc =
     (if sc \<ge> 9 then GreenLight else if sc \<ge> 5 then YellowLight else RedLight)"

definition dimensionResult_part002 ::
  "Category_part002 Question list \<Rightarrow> (Category_part002 \<Rightarrow> CategoryInfo) \<Rightarrow> (int \<rightharpoonup> int)
     \<Rightarrow> Category_part002 \<Rightarrow> DimensionResult_part002" where
  "dimensionResult_part002 QUESTIONS CATEGORY_INFO ans cat =
     (let sc = catScore QUESTIONS ans cat
      in \<lparr> category_v = cat, score_v = sc, level_v = levelOf_part002 sc,
           description_v = description_info (CATEGORY_INFO cat),
           suggestion_v = suggestions (CATEGORY_INFO cat) (levelOf_part002 sc) \<rparr>)"

definition localSummary_part002 ::
  "Category_part002 Question list \<Rightarrow> (Category_part002 \<Rightarrow> CategoryInfo) \<Rightarrow> AppState
     \<Rightarrow> Summary_part002 option" where
  "localSummary_part002 QUESTIONS CATEGORY_INFO st =
     (if step st \<noteq> Result \<and> step st \<noteq> Diagnosing then None
      else
        let sm = map (dimensionResult_part002 QUESTIONS CATEGORY_INFO (answers st))
                   categories_part002
        in Some \<lparr> summary_v = sm, totalScore_v = foldl (\<lambda>acc curr. acc + score_v curr) 0 sm \<rparr>)"

text \<open>\<^verbatim>\<open>localSummary.totalScore > 36 ? 'charmer' : 'neighbor'\<close>\<close>

definition fallbackId_part002 :: "int \<Rightarrow> string" where
  "fallbackId_part002 tot = (if tot > 36 then ''charmer'' else ''neighbor'')"

section \<open>The constants of constants.ts\<close>

text \<open>Modelled from the spec: \<^verbatim>\<open>OPTIONS\<close> is declared in constants.ts, which is not among
  the sources. The spec gives the option scale as -1 (unsure), 0, 1, 2, 3; the source
  comments agree on a top value of 3 and on five questions per category.\<close>

definition optionValues :: "int list" where
  "optionValues = [- 1, 0, 1, 2, 3]"

text \<open>Modelled from the spec: the top value of the option scale of the absent
  \<^verbatim>\<open>OPTIONS\<close>; the comment in \<^verbatim>\<open>localSummary\<close> counts 3 points per question.\<close>

definition maxOptionValue :: int where
  "maxOptionValue = 3"

text \<open>Modelled from the spec: the number of questions each category has in the absent
  \<^verbatim>\<open>QUESTIONS\<close>; the comment in \<^verbatim>\<open>localSummary\<close> counts 5 questions.\<close>

definition questionsPerCategory :: nat where
  "questionsPerCategory = 5"

text \<open>Modelled from the spec: the maximum total, four categories of five questions at
  3 points; the prompt text of \<^verbatim>\<open>runDiagnosis\<close> prints the total out of 60.\<close>

definition maxTotal :: int where
  "maxTotal = int (length categories) * int questionsPerCategory * maxOptionValue"

text \<open>The questions of one category with the given ids.\<close>

definition questionsOf :: "'c \<Rightarrow> int list \<Rightarrow> 'c Question list" where
  "questionsOf cat ids = map (\<lambda>i. \<lparr> id_q = i, category_q = cat, text_q = [] \<rparr>) ids"

text \<open>Modelled from the spec: \<^verbatim>\<open>QUESTIONS\<close> is declared in constants.ts, which is not among
  the sources. The spec's bank has four categories of five questions, grouped by category
  in display order; the ids 1 to 20 and the empty texts are a choice of this sample.\<close>

definition sampleQuestions :: "Category Question list" where
  "sampleQuestions =
     questionsOf Complexion [1, 2, 3, 4, 5] @ questionsOf Hairstyle [6, 7, 8, 9, 10] @
     questionsOf Outfit [11, 12, 13, 14, 15] @ questionsOf SocialImage [16, 17, 18, 19, 20]"

text \<open>Modelled from the spec: \<^verbatim>\<open>CATEGORY_INFO\<close> is declared in constants.ts, which is not
  among the sources. The sample gives every category the same short texts.\<close>

definition sampleInfo :: "Category \<Rightarrow> CategoryInfo" where
  "sampleInfo cat = \<lparr> description_info = ''d'', suggestions = (\<lambda>lv. ''s'') \<rparr>"

text \<open>Modelled from the spec: \<^verbatim>\<open>PERSONAS\<close> is declared in constants.ts, which is not among
  the sources. The sample has one entry per id of the closed set of six, in the order of
  \<open>personaIds\<close>, with empty display fields.\<close>

definition samplePersonas :: "Persona list" where
  "samplePersonas =
     map (\<lambda>i. \<lparr> id_p = i, title = [], subtitle = [], tags = [], imageUrl = [] \<rparr>) personaIds"

section \<open>Sample states\<close>

text \<open>A state in the result step with the given answers and no report yet.\<close>

definition resultState :: "(int \<rightharpoonup> int) \<Rightarrow> AppState" where
  "resultState ans =
     \<lparr> step = Result, currentIdx = 19, isIntroMode = False, answers = ans, aiAnalysis = None,
       isAiLoading = False, customApiKey = [], showKeyInput = False, aiFetchingRef = False,
       lastFetchTimeRef = 0, lastError = [] \<rparr>"

text \<open>Every question of the list answered with the same value.\<close>

definition answerAll :: "int list \<Rightarrow> int \<Rightarrow> (int \<rightharpoonup> int)" where
  "answerAll ids v = map_of (map (\<lambda>i. (i, v)) ids)"

text \<open>Modelled from the spec: the bank of the older variant is declared in its
  constants.ts, which is not among the sources. Its source comments give four questions
  per category; the ids 1 to 16 and the empty texts are a choice of this sample.\<close>

definition sampleQuestions_part002 :: "Category_part002 Question list" where
  "sampleQuestions_part002 =
     questionsOf Appearance [1, 2, 3, 4] @ questionsOf SocialPresence [5, 6, 7, 8] @
     questionsOf ActionInteraction [9, 10, 11, 12] @ questionsOf MindsetHabits [13, 14, 15, 16]"

text \<open>Modelled from the spec: the \<^verbatim>\<open>CATEGORY_INFO\<close> of the older variant is not among
  the sources. The sample gives every category the same short texts.\<close>

definition sampleInfo_part002 :: "Category_part002 \<Rightarrow> CategoryInfo" where
  "sampleInfo_part002 cat = \<lparr> description_info = ''d'', suggestions = (\<lambda>lv. ''s'') \<rparr>"

text \<open>A partly filled quiz: question 1 answered 3, question 2 answered "unsure",
  question 7 answered 2, the rest unanswered.\<close>

definition partialState :: AppState where
  "partialState = resultState [1 \<mapsto> 3, 2 \<mapsto> - 1, 7 \<mapsto> 2]"


text \<open>The ids of the sample bank.\<close>

definition sampleIds :: "int list" where
  "sampleIds = [1, 2, 3, 4, 5, 6, 7, 8, 9, 10, 11, 12, 13, 14, 15, 16, 17, 18, 19, 20]"

text \<open>The two corner cases: every question answered 3, every question answered "unsure".\<close>

definition allThree :: AppState where
  "allThree = resultState (answerAll sampleIds 3)"

definition allUnsure :: AppState where
  "allUnsure = resultState (answerAll sampleIds (- 1))"

text \<open>A state holding a report whose persona id is the given raw text.\<close>

definition reportedState :: "string \<Rightarrow> AppState" where
  "reportedState rawId = (resultState Map.empty) \<lparr> aiAnalysis := Some \<lparr> selectedPersonaId = rawId \<rparr> \<rparr>"

text \<open>The raw id \<^verbatim>\<open>"  Charmer \t"\<close>: two spaces, the mixed-case word, a space and a tab.\<close>

definition paddedCharmer :: string where
  "paddedCharmer = [CHR '' '', CHR '' ''] @ ''Charmer'' @ [CHR '' '', CHR 0x09]"


text \<open>The range the claim on bounds speaks of: a category score between 0 and the
  category's maximum attainable score, the number of its questions times the top option
  value.\<close>

definition withinCategoryRange :: "Category Question list \<Rightarrow> DimensionResult \<Rightarrow> bool" where
  "withinCategoryRange QUESTIONS r =
     (0 \<le> score r \<and>
      score r \<le> int (length (catQuestions QUESTIONS (category r))) * maxOptionValue)"

text \<open>Two stored values outside the option scale: 100 for question 1 and -5 for
  question 6.\<close>

definition outOfRangeState :: AppState where
  "outOfRangeState = resultState [1 \<mapsto> 100, 6 \<mapsto> - 5]"

text \<open>The mixed case: the first category scores 14, the other three 8 each.\<close>

definition mixedState :: AppState where
  "mixedState = resultState
     [1 \<mapsto> 3, 2 \<mapsto> 3, 3 \<mapsto> 3, 4 \<mapsto> 3, 5 \<mapsto> 2,
      6 \<mapsto> 2, 7 \<mapsto> 2, 8 \<mapsto> 2, 9 \<mapsto> 2, 10 \<mapsto> 0,
      11 \<mapsto> 2, 12 \<mapsto> 2, 13 \<mapsto> 2, 14 \<mapsto> 2, 15 \<mapsto> 0,
      16 \<mapsto> 2, 17 \<mapsto> 2, 18 \<mapsto> 2, 19 \<mapsto> 2, 20 \<mapsto> 0]"

text \<open>The same answers for the first category, and nothing else answered.\<close>

definition firstOnlyState :: AppState where
  "firstOnlyState = resultState [1 \<mapsto> 3, 2 \<mapsto> 3, 3 \<mapsto> 3, 4 \<mapsto> 3, 5 \<mapsto> 2]"

text \<open>Three questions of the first category answered 3.\<close>

definition threeAnswersState :: AppState where
  "threeAnswersState = resultState [1 \<mapsto> 3, 2 \<mapsto> 3, 3 \<mapsto> 3]"

text \<open>The partly filled quiz again, with every other cell of the state changed.\<close>

definition busyState :: AppState where
  "busyState = partialState \<lparr> step := Result, currentIdx := 3, isIntroMode := True,
       aiAnalysis := Some \<lparr> selectedPersonaId = ''sage'' \<rparr>, isAiLoading := True,
       customApiKey := ''k'', showKeyInput := True, aiFetchingRef := True,
       lastFetchTimeRef := 99, lastError := ''e'' \<rparr>"

text \<open>Only the five questions of the second category answered, all with 3.\<close>

definition hairOnlyState :: AppState where
  "hairOnlyState = resultState (answerAll [6, 7, 8, 9, 10] 3)"

text \<open>Modelled from the spec: the bank of the older variant is not among the sources. Its
  source comment gives four questions per category and a category maximum of 12; the
  comment of App.tsx gives five questions and a maximum of 15.\<close>

definition questionsPerCategory_part002 :: nat where
  "questionsPerCategory_part002 = 4"

text \<open>Modelled from the spec: the category maximum of App.tsx, questions per category times
  the top option value (15 in the source comment).\<close>

definition categoryMax :: int where
  "categoryMax = int questionsPerCategory * maxOptionValue"

text \<open>Modelled from the spec: the category maximum of the older variant (12 in its source
  comment).\<close>

definition categoryMax_part002 :: int where
  "categoryMax_part002 = int questionsPerCategory_part002 * maxOptionValue"


section \<open>Helper facts\<close>

lemma foldl_add_shift:
  "foldl (\<lambda>acc x. acc + f x) (a :: int) xs = a + sum_list (map f xs)"
  by (induction xs arbitrary: a) simp_all

lemma foldl_add_sum_list:
  "foldl (\<lambda>acc x. acc + f x) (0 :: int) xs = sum_list (map f xs)"
  by (simp add: foldl_add_shift)

lemma catScore_sum_list:
  "catScore QUESTIONS ans cat =
     sum_list (map (\<lambda>q. answerValue (ans (id_q q))) (catQuestions QUESTIONS cat))"
  by (simp add: catScore_def foldl_add_sum_list)

lemma score_dimensionResult:
  "score (dimensionResult QUESTIONS CATEGORY_INFO ans cat) = catScore QUESTIONS ans cat"
  by (simp add: dimensionResult_def Let_def)

lemma level_dimensionResult:
  "level (dimensionResult QUESTIONS CATEGORY_INFO ans cat) = levelOf (catScore QUESTIONS ans cat)"
  by (simp add: dimensionResult_def Let_def)

lemma category_dimensionResult:
  "category (dimensionResult QUESTIONS CATEGORY_INFO ans cat) = cat"
  by (simp add: dimensionResult_def Let_def)

lemma localSummary_Some:
  assumes "step st = Result \<or> step st = Diagnosing"
  shows "localSummary QUESTIONS CATEGORY_INFO st =
           Some \<lparr> summary = map (dimensionResult QUESTIONS CATEGORY_INFO (answers st)) categories,
                  totalScore = sum_list (map (catScore QUESTIONS (answers st)) categories) \<rparr>"
proof -
  have "foldl (\<lambda>acc curr. acc + score curr) 0
          (map (dimensionResult QUESTIONS CATEGORY_INFO (answers st)) categories)
        = sum_list (map (catScore QUESTIONS (answers st)) categories)"
    by (simp add: foldl_add_sum_list comp_def score_dimensionResult)
  then show ?thesis
    using assms by (auto simp: localSummary_def Let_def)
qed


lemma score_dimensionResult_part002:
  "score_v (dimensionResult_part002 QUESTIONS CATEGORY_INFO ans cat) = catScore QUESTIONS ans cat"
  by (simp add: dimensionResult_part002_def Let_def)

lemma localSummary_part002_Some:
  assumes "step st = Result \<or> step st = Diagnosing"
  shows "localSummary_part002 QUESTIONS CATEGORY_INFO st =
           Some \<lparr> summary_v = map (dimensionResult_part002 QUESTIONS CATEGORY_INFO (answers st))
                                 categories_part002,
                  totalScore_v = sum_list (map (catScore QUESTIONS (answers st)) categories_part002) \<rparr>"
proof -
  have "foldl (\<lambda>acc curr. acc + score_v curr) 0
          (map (dimensionResult_part002 QUESTIONS CATEGORY_INFO (answers st)) categories_part002)
        = sum_list (map (catScore QUESTIONS (answers st)) categories_part002)"
    by (simp add: foldl_add_sum_list comp_def score_dimensionResult_part002)
  then show ?thesis
    using assms by (auto simp: localSummary_part002_def Let_def)
qed

lemma localSummary_step:
  "localSummary QUESTIONS CATEGORY_INFO st = Some s \<Longrightarrow> step st = Result \<or> step st = Diagnosing"
  by (auto simp: localSummary_def split: if_splits)

lemma localSummary_SomeD:
  assumes "localSummary QUESTIONS CATEGORY_INFO st = Some s"
  shows "summary s = map (dimensionResult QUESTIONS CATEGORY_INFO (answers st)) categories"
    and "totalScore s = sum_list (map (catScore QUESTIONS (answers st)) categories)"
  using assms localSummary_Some [OF localSummary_step [OF assms], of QUESTIONS CATEGORY_INFO]
  by auto

lemma answerValue_cases:
  "answerValue None = 0" "answerValue (Some (- 1)) = 0" "v \<noteq> - 1 \<Longrightarrow> answerValue (Some v) = v"
  by (simp_all add: answerValue_def)

lemma sum_list_answered:
  "sum_list (map (\<lambda>q. answerValue (ans (id_q q))) qs) =
   sum_list (map (\<lambda>q. the (ans (id_q q)))
     (filter (\<lambda>q. ans (id_q q) \<noteq> None \<and> ans (id_q q) \<noteq> Some (- 1)) qs))"
  by (induction qs) (auto simp: answerValue_def split: option.splits)

section \<open>C1: the total is the sum of the four category scores\<close>

text \<open>
  Claim C1. In the two scoring steps the memo returns a summary for every answers map,
  full, partial or empty; the summary lists one result per category in display order, and
  its \<^verbatim>\<open>totalScore\<close> is the sum of the four \<^verbatim>\<open>score\<close> fields. The same holds for the
  older variant of the memo.
\<close>

theorem totalScore_sums_category_scores:
  assumes "step st = Result \<or> step st = Diagnosing"
  shows "(\<exists>s r1 r2 r3 r4.
            localSummary QUESTIONS CATEGORY_INFO st = Some s \<and>
            summary s = [r1, r2, r3, r4] \<and>
            map category (summary s) = categories \<and>
            totalScore s = score r1 + score r2 + score r3 + score r4)
       \<and> (\<exists>s r1 r2 r3 r4.
            localSummary_part002 QUESTIONS2 CATEGORY_INFO2 st = Some s \<and>
            summary_v s = [r1, r2, r3, r4] \<and>
            map category_v (summary_v s) = categories_part002 \<and>
            totalScore_v s = score_v r1 + score_v r2 + score_v r3 + score_v r4)"
proof
  show "\<exists>s r1 r2 r3 r4.
            localSummary QUESTIONS CATEGORY_INFO st = Some s \<and>
            summary s = [r1, r2, r3, r4] \<and>
            map category (summary s) = categories \<and>
            totalScore s = score r1 + score r2 + score r3 + score r4"
    by (simp add: localSummary_Some [OF assms] categories_def score_dimensionResult
        category_dimensionResult)
  show "\<exists>s r1 r2 r3 r4.
            localSummary_part002 QUESTIONS2 CATEGORY_INFO2 st = Some s \<and>
            summary_v s = [r1, r2, r3, r4] \<and>
            map category_v (summary_v s) = categories_part002 \<and>
            totalScore_v s = score_v r1 + score_v r2 + score_v r3 + score_v r4"
    by (simp add: localSummary_part002_Some [OF assms] categories_part002_def
        score_dimensionResult_part002 dimensionResult_part002_def Let_def)
qed

text \<open>The partly filled sample: the four scores are 3, 2, 0, 0 and the total is 5.\<close>

theorem totalScore_sums_category_scores_witness:
  "(step partialState = Result \<or> step partialState = Diagnosing) \<and>
   (\<exists>s r1 r2 r3 r4.
      localSummary sampleQuestions sampleInfo partialState = Some s \<and>
      summary s = [r1, r2, r3, r4] \<and> map category (summary s) = categories \<and>
      totalScore s = score r1 + score r2 + score r3 + score r4) \<and>
   (\<exists>s r1 r2 r3 r4.
      localSummary_part002 sampleQuestions_part002 sampleInfo_part002 partialState = Some s \<and>
      summary_v s = [r1, r2, r3, r4] \<and> map category_v (summary_v s) = categories_part002 \<and>
      totalScore_v s = score_v r1 + score_v r2 + score_v r3 + score_v r4)"
proof -
  have h: "step partialState = Result \<or> step partialState = Diagnosing"
    by (simp add: partialState_def resultState_def)
  show ?thesis
    using h totalScore_sums_category_scores [OF h, of sampleQuestions sampleInfo
        sampleQuestions_part002 sampleInfo_part002]
    by simp
qed

section \<open>C2: "unsure" and unanswered questions score zero\<close>

text \<open>
  Claim C2. A missing answer and the sentinel value -1 each contribute exactly 0 to the
  sum, so the score of every category in the summary is the sum of the stored values of
  that category's questions that are answered with something other than -1.
\<close>

theorem unsure_and_missing_score_zero:
  assumes "localSummary QUESTIONS CATEGORY_INFO st = Some s" and "r \<in> set (summary s)"
  shows "answerValue None = 0 \<and> answerValue (Some (- 1)) = 0 \<and>
         score r =
           sum_list (map (\<lambda>q. the (answers st (id_q q)))
             (filter (\<lambda>q. answers st (id_q q) \<noteq> None \<and> answers st (id_q q) \<noteq> Some (- 1))
                (catQuestions QUESTIONS (category r))))"
proof -
  from assms(1) have "summary s = map (dimensionResult QUESTIONS CATEGORY_INFO (answers st)) categories"
    by (rule localSummary_SomeD)
  with assms(2) obtain cat where r: "r = dimensionResult QUESTIONS CATEGORY_INFO (answers st) cat"
    by auto
  have "score r = catScore QUESTIONS (answers st) (category r)"
    by (simp add: r score_dimensionResult category_dimensionResult)
  then show ?thesis
    by (simp add: catScore_sum_list sum_list_answered answerValue_cases)
qed


text \<open>The partly filled sample: the first category holds a 3 and an "unsure", and scores 3.\<close>

theorem unsure_and_missing_score_zero_witness:
  "\<exists>s r. localSummary sampleQuestions sampleInfo partialState = Some s \<and>
         r \<in> set (summary s) \<and> category r = Complexion \<and> score r = 3 \<and>
         score r =
           sum_list (map (\<lambda>q. the (answers partialState (id_q q)))
             (filter (\<lambda>q. answers partialState (id_q q) \<noteq> None \<and>
                          answers partialState (id_q q) \<noteq> Some (- 1))
                (catQuestions sampleQuestions (category r))))"
proof -
  have ok: "step partialState = Result \<or> step partialState = Diagnosing"
    by (simp add: partialState_def resultState_def)
  define r where "r = dimensionResult sampleQuestions sampleInfo (answers partialState) Complexion"
  obtain s where 1: "localSummary sampleQuestions sampleInfo partialState = Some s"
    and s: "summary s = map (dimensionResult sampleQuestions sampleInfo (answers partialState)) categories"
    using localSummary_Some [OF ok, of sampleQuestions sampleInfo] by simp
  have 2: "r \<in> set (summary s)"
    by (simp add: s r_def categories_def)
  have 3: "category r = Complexion"
    by (simp add: r_def category_dimensionResult)
  have 4: "score r = 3"
    by (simp add: r_def score_dimensionResult catScore_def catQuestions_def sampleQuestions_def
        questionsOf_def partialState_def resultState_def answerValue_def)
  from unsure_and_missing_score_zero [OF 1 2] 1 2 3 4 show ?thesis
    by blast
qed

section \<open>C3: the fallback decision table\<close>

lemma fallbackId_bands:
  "(fallbackId t = ''charmer'') = (48 \<le> t)"
  "(fallbackId t = ''statue'') = (38 \<le> t \<and> t < 48)"
  "(fallbackId t = ''pioneer'') = (t \<le> 20)"
  "(fallbackId t = ''neighbor'') = (20 < t \<and> t < 38)"
  by (auto simp: fallbackId_def)

text \<open>
  Claim C3. When the diagnosis is forced onto the fallback path and a summary exists, the
  call returns with a stored report whose persona id depends on \<^verbatim>\<open>totalScore\<close> alone,
  by a first-match table: from 48 up the all-rounder id \<^verbatim>\<open>charmer\<close>, else from 38 up the
  polished-but-incomplete id \<^verbatim>\<open>statue\<close>, else up to 20 the needs-rebuild id
  \<^verbatim>\<open>pioneer\<close>, else the neutral id \<^verbatim>\<open>neighbor\<close>. A total of 60 gives \<^verbatim>\<open>charmer\<close>
  and a total of 0 gives \<^verbatim>\<open>pioneer\<close>.
\<close>

theorem fallback_persona_decision_table:
  assumes "localSummary QUESTIONS CATEGORY_INFO st = Some s"
  shows "\<exists>st' report.
           runDiagnosis QUESTIONS CATEGORY_INFO True overrideKey now st = Returned st' \<and>
           aiAnalysis st' = Some report \<and>
           (selectedPersonaId report = ''charmer'') = (48 \<le> totalScore s) \<and>
           (selectedPersonaId report = ''statue'') = (38 \<le> totalScore s \<and> totalScore s < 48) \<and>
           (selectedPersonaId report = ''pioneer'') = (totalScore s \<le> 20) \<and>
           (selectedPersonaId report = ''neighbor'') = (20 < totalScore s \<and> totalScore s < 38) \<and>
           fallbackId 60 = ''charmer'' \<and> fallbackId 0 = ''pioneer''"
  using assms
  by (simp add: runDiagnosis_def Let_def fallbackAnalysis_def fallbackId_bands)

lemma sample_totals:
  "catScore sampleQuestions (answerAll sampleIds 3) Complexion = 15"
  "catScore sampleQuestions (answerAll sampleIds 3) Hairstyle = 15"
  "catScore sampleQuestions (answerAll sampleIds 3) Outfit = 15"
  "catScore sampleQuestions (answerAll sampleIds 3) SocialImage = 15"
  "catScore sampleQuestions (answerAll sampleIds (- 1)) Complexion = 0"
  "catScore sampleQuestions (answerAll sampleIds (- 1)) Hairstyle = 0"
  "catScore sampleQuestions (answerAll sampleIds (- 1)) Outfit = 0"
  "catScore sampleQuestions (answerAll sampleIds (- 1)) SocialImage = 0"
  by (simp_all add: catScore_def catQuestions_def sampleQuestions_def questionsOf_def
      answerAll_def sampleIds_def answerValue_def)

text \<open>All answers 3 give total 60 and \<^verbatim>\<open>charmer\<close>; all answers "unsure" give total 0
  and \<^verbatim>\<open>pioneer\<close>.\<close>

theorem fallback_persona_decision_table_witness:
  "(\<exists>s st' report.
      localSummary sampleQuestions sampleInfo allThree = Some s \<and> totalScore s = 60 \<and>
      runDiagnosis sampleQuestions sampleInfo True [] 5000 allThree = Returned st' \<and>
      aiAnalysis st' = Some report \<and> selectedPersonaId report = ''charmer'') \<and>
   (\<exists>s st' report.
      localSummary sampleQuestions sampleInfo allUnsure = Some s \<and> totalScore s = 0 \<and>
      runDiagnosis sampleQuestions sampleInfo True [] 5000 allUnsure = Returned st' \<and>
      aiAnalysis st' = Some report \<and> selectedPersonaId report = ''pioneer'')"
proof
  have ok: "step allThree = Result \<or> step allThree = Diagnosing"
    by (simp add: allThree_def resultState_def)
  obtain s where s: "localSummary sampleQuestions sampleInfo allThree = Some s"
    and t: "totalScore s = sum_list (map (catScore sampleQuestions (answers allThree)) categories)"
    using localSummary_Some [OF ok, of sampleQuestions sampleInfo] by simp
  have "totalScore s = 60"
    by (simp add: t allThree_def resultState_def categories_def sample_totals)
  with s fallback_persona_decision_table [OF s, of "[]" 5000]
  show "\<exists>s st' report.
      localSummary sampleQuestions sampleInfo allThree = Some s \<and> totalScore s = 60 \<and>
      runDiagnosis sampleQuestions sampleInfo True [] 5000 allThree = Returned st' \<and>
      aiAnalysis st' = Some report \<and> selectedPersonaId report = ''charmer''"
    by auto
next
  have ok: "step allUnsure = Result \<or> step allUnsure = Diagnosing"
    by (simp add: allUnsure_def resultState_def)
  obtain s where s: "localSummary sampleQuestions sampleInfo allUnsure = Some s"
    and t: "totalScore s = sum_list (map (catScore sampleQuestions (answers allUnsure)) categories)"
    using localSummary_Some [OF ok, of sampleQuestions sampleInfo] by simp
  have "totalScore s = 0"
    by (simp add: t allUnsure_def resultState_def categories_def sample_totals)
  with s fallback_persona_decision_table [OF s, of "[]" 5000]
  show "\<exists>s st' report.
      localSummary sampleQuestions sampleInfo allUnsure = Some s \<and> totalScore s = 0 \<and>
      runDiagnosis sampleQuestions sampleInfo True [] 5000 allUnsure = Returned st' \<and>
      aiAnalysis st' = Some report \<and> selectedPersonaId report = ''pioneer''"
    by auto
qed

section \<open>C4: normalising the persona id\<close>

lemma find_SomeD: "find P xs = Some x \<Longrightarrow> P x \<and> x \<in> set xs"
  by (induction xs) (auto split: if_splits)

lemma find_None_set: "(find P xs = None) = (\<forall>x \<in> set xs. \<not> P x)"
  by (induction xs) auto

lemma index_member: "i < length xs \<Longrightarrow> index xs i = Some (xs ! i) \<and> xs ! i \<in> set xs"
  by (simp add: index_def)

lemma orElse_find:
  assumes "b = Some d" and "d \<in> set xs"
  shows "\<exists>p. orElse (find P xs) b = Some p \<and> p \<in> set xs \<and>
             (if \<exists>x \<in> set xs. P x then P p else p = d)"
proof (cases "find P xs")
  case None
  then have "\<forall>x \<in> set xs. \<not> P x" by (simp add: find_None_set)
  then show ?thesis using assms None by (simp add: orElse_def)
next
  case (Some x)
  from find_SomeD [OF Some] show ?thesis using Some by (auto simp: orElse_def)
qed

text \<open>
  Claim C4. The persona lookup lower-cases and trims the raw id of the report. With the six
  personas in place it always yields an entry of \<^verbatim>\<open>PERSONAS\<close>, for every raw string: the
  entry carrying the normalised id when there is one, and the default entry otherwise
  (entry 5 in \<^verbatim>\<open>activePersona\<close>; the \<^verbatim>\<open>neighbor\<close> entry, then entry 3, in
  \<^verbatim>\<open>sendResultsToWebhook\<close>, which also reads an empty id as \<^verbatim>\<open>neighbor\<close>).
\<close>

theorem persona_lookup_safe:
  assumes "5 < length PERSONAS" and "aiAnalysis st = Some report"
  shows "(\<exists>p. activePersona PERSONAS st = Some p \<and> p \<in> set PERSONAS \<and>
            (if \<exists>x \<in> set PERSONAS. id_p x = trim (toLowerCase (selectedPersonaId report))
             then id_p p = trim (toLowerCase (selectedPersonaId report))
             else p = PERSONAS ! 5))
       \<and> (\<exists>p. personaData PERSONAS report = Some p \<and> p \<in> set PERSONAS \<and>
            (if selectedPersonaId report \<noteq> [] \<and>
                (\<exists>x \<in> set PERSONAS. id_p x = trim (toLowerCase (selectedPersonaId report)))
             then id_p p = trim (toLowerCase (selectedPersonaId report))
             else if \<exists>x \<in> set PERSONAS. id_p x = ''neighbor'' then id_p p = ''neighbor''
             else p = PERSONAS ! 3))"
proof
  from assms(1) have d: "index PERSONAS 5 = Some (PERSONAS ! 5)" "PERSONAS ! 5 \<in> set PERSONAS"
    by (simp_all add: index_def)
  show "\<exists>p. activePersona PERSONAS st = Some p \<and> p \<in> set PERSONAS \<and>
            (if \<exists>x \<in> set PERSONAS. id_p x = trim (toLowerCase (selectedPersonaId report))
             then id_p p = trim (toLowerCase (selectedPersonaId report))
             else p = PERSONAS ! 5)"
    unfolding activePersona_def Let_def normalizedId_def assms(2) option.case
    by (rule orElse_find [OF d])
next
  from assms(1) have d: "index PERSONAS 3 = Some (PERSONAS ! 3)" "PERSONAS ! 3 \<in> set PERSONAS"
    by (simp_all add: index_def)
  from orElse_find [OF d, of "\<lambda>p. id_p p = ''neighbor''"]
  obtain n where n: "orElse (find (\<lambda>p. id_p p = ''neighbor'') PERSONAS) (index PERSONAS 3) = Some n"
      "n \<in> set PERSONAS"
      "if \<exists>x \<in> set PERSONAS. id_p x = ''neighbor'' then id_p n = ''neighbor'' else n = PERSONAS ! 3"
    by blast
  show "\<exists>p. personaData PERSONAS report = Some p \<and> p \<in> set PERSONAS \<and>
            (if selectedPersonaId report \<noteq> [] \<and>
                (\<exists>x \<in> set PERSONAS. id_p x = trim (toLowerCase (selectedPersonaId report)))
             then id_p p = trim (toLowerCase (selectedPersonaId report))
             else if \<exists>x \<in> set PERSONAS. id_p x = ''neighbor'' then id_p p = ''neighbor''
             else p = PERSONAS ! 3)"
  proof (cases "selectedPersonaId report = []")
    case True
    have "personaData PERSONAS report = Some n"
      using n(1) True by (simp add: personaData_def Let_def orElse_def split: option.splits)
    with n(2,3) True show ?thesis
      by simp
  next
    case False
    from orElse_find [OF n(1) n(2), of "\<lambda>p. id_p p = trim (toLowerCase (selectedPersonaId report))"]
    obtain p where p: "orElse (find (\<lambda>p. id_p p = trim (toLowerCase (selectedPersonaId report))) PERSONAS)
           (orElse (find (\<lambda>p. id_p p = ''neighbor'') PERSONAS) (index PERSONAS 3)) = Some p"
        "p \<in> set PERSONAS"
        "if \<exists>x \<in> set PERSONAS. id_p x = trim (toLowerCase (selectedPersonaId report))
         then id_p p = trim (toLowerCase (selectedPersonaId report)) else p = n"
      by blast
    have "personaData PERSONAS report = Some p"
      using p(1) False by (simp add: personaData_def Let_def normalizedId_def)
    with p(2,3) n(3) False show ?thesis
      by (simp split: if_splits)
  qed
qed

lemma normalizedId_samples:
  "normalizedId paddedCharmer = ''charmer''"
  "normalizedId ''SaGe'' = ''sage''"
  "normalizedId ''wizard'' = ''wizard''"
  "normalizedId [] = []"
  by code_simp+

lemma samplePersonas_ids:
  "length samplePersonas = 6"
  "(\<exists>x \<in> set samplePersonas. id_p x = ''charmer'')"
  "\<not> (\<exists>x \<in> set samplePersonas. id_p x = ''wizard'')"
  "(\<exists>x \<in> set samplePersonas. id_p x = ''neighbor'')"
  "id_p (samplePersonas ! 5) = ''pioneer''"
  by (simp_all add: samplePersonas_def personaIds_def)

text \<open>The padded mixed-case id finds \<^verbatim>\<open>charmer\<close>; the unknown id \<^verbatim>\<open>wizard\<close> falls to the
  defaults.\<close>

theorem persona_lookup_safe_witness:
  "5 < length samplePersonas \<and>
   aiAnalysis (reportedState paddedCharmer) = Some \<lparr> selectedPersonaId = paddedCharmer \<rparr> \<and>
   (\<exists>p. activePersona samplePersonas (reportedState paddedCharmer) = Some p \<and>
        p \<in> set samplePersonas \<and> id_p p = ''charmer'') \<and>
   (\<exists>p. personaData samplePersonas \<lparr> selectedPersonaId = paddedCharmer \<rparr> = Some p \<and>
        p \<in> set samplePersonas \<and> id_p p = ''charmer'') \<and>
   (\<exists>p. activePersona samplePersonas (reportedState ''wizard'') = Some p \<and>
        p \<in> set samplePersonas \<and> p = samplePersonas ! 5) \<and>
   (\<exists>p. personaData samplePersonas \<lparr> selectedPersonaId = ''wizard'' \<rparr> = Some p \<and>
        p \<in> set samplePersonas \<and> id_p p = ''neighbor'')"
proof -
  have len: "5 < length samplePersonas"
    by (simp add: samplePersonas_ids)
  have a1: "aiAnalysis (reportedState paddedCharmer) = Some \<lparr> selectedPersonaId = paddedCharmer \<rparr>"
    and a2: "aiAnalysis (reportedState ''wizard'') = Some \<lparr> selectedPersonaId = ''wizard'' \<rparr>"
    by (simp_all add: reportedState_def)
  have n1: "trim (toLowerCase paddedCharmer) = ''charmer''"
    and n2: "trim (toLowerCase ''wizard'') = ''wizard''"
    using normalizedId_samples by (simp_all add: normalizedId_def)
  have ne: "paddedCharmer \<noteq> []"
    by (simp add: paddedCharmer_def)
  from persona_lookup_safe [OF len a1] persona_lookup_safe [OF len a2] len a1
  show ?thesis
    by (simp add: n1 n2 ne samplePersonas_ids)
qed

section \<open>C5: totality, and what happens to values off the scale\<close>

lemma sum_list_bounds:
  assumes "\<forall>x \<in> set xs. 0 \<le> f x \<and> f x \<le> (k::int)"
  shows "0 \<le> sum_list (map f xs) \<and> sum_list (map f xs) \<le> int (length xs) * k"
  using assms by (induction xs) (auto simp: algebra_simps)

lemma answerValue_on_scale:
  assumes "\<forall>v. a = Some v \<longrightarrow> v \<in> set optionValues"
  shows "0 \<le> answerValue a \<and> answerValue a \<le> maxOptionValue"
  using assms by (cases a) (auto simp: answerValue_def optionValues_def maxOptionValue_def)

text \<open>
  Claim C5 as stated fails: a stored value outside the option scale is not clamped to 0
  but added as it is. With 100 stored for question 1 and -5 for question 6 the four
  scores are 100, -5, 0 and 0, so the first lies above the category maximum of 15 and the
  second below 0.
\<close>

theorem out_of_range_not_clamped_counterexample:
  "map_option (map score \<circ> summary)
     (localSummary sampleQuestions sampleInfo outOfRangeState) = Some [100, - 5, 0, 0] \<and>
   map_option (map (withinCategoryRange sampleQuestions) \<circ> summary)
     (localSummary sampleQuestions sampleInfo outOfRangeState) = Some [False, False, True, True]"
  by (simp add: localSummary_def outOfRangeState_def resultState_def categories_def
      dimensionResult_def catScore_def catQuestions_def sampleQuestions_def questionsOf_def
      answerValue_def withinCategoryRange_def maxOptionValue_def)

text \<open>
  Claim C5, amended. In the two scoring steps the memo returns a summary for every answers
  map. Only a missing answer and -1 are replaced by 0; every other stored value is added
  unchanged. So a category whose answered questions all hold values of the option scale
  has a score between 0 and the number of its questions times 3.
\<close>

theorem summary_total_and_bounded_on_scale:
  assumes "step st = Result \<or> step st = Diagnosing"
  shows "\<exists>s. localSummary QUESTIONS CATEGORY_INFO st = Some s \<and>
             map category (summary s) = categories \<and>
             (\<forall>v. v \<noteq> - 1 \<longrightarrow> answerValue (Some v) = v) \<and>
             (\<forall>r \<in> set (summary s).
                (\<forall>q \<in> set (catQuestions QUESTIONS (category r)).
                   \<forall>v. answers st (id_q q) = Some v \<longrightarrow> v \<in> set optionValues)
                \<longrightarrow> withinCategoryRange QUESTIONS r)"
proof -
  let ?sm = "map (dimensionResult QUESTIONS CATEGORY_INFO (answers st)) categories"
  obtain s where s: "localSummary QUESTIONS CATEGORY_INFO st = Some s" "summary s = ?sm"
    using localSummary_Some [OF assms, of QUESTIONS CATEGORY_INFO] by simp
  have cats: "map category (summary s) = categories"
    by (simp add: s(2) comp_def category_dimensionResult)
  have bound: "withinCategoryRange QUESTIONS r"
    if r: "r \<in> set (summary s)"
      and sc: "\<forall>q \<in> set (catQuestions QUESTIONS (category r)).
                 \<forall>v. answers st (id_q q) = Some v \<longrightarrow> v \<in> set optionValues" for r
  proof -
    from r obtain cat where rc: "r = dimensionResult QUESTIONS CATEGORY_INFO (answers st) cat"
      by (auto simp: s(2))
    have c: "category r = cat" and v: "score r = catScore QUESTIONS (answers st) cat"
      by (simp_all add: rc category_dimensionResult score_dimensionResult)
    have "\<forall>q \<in> set (catQuestions QUESTIONS cat).
            0 \<le> answerValue (answers st (id_q q)) \<and> answerValue (answers st (id_q q)) \<le> maxOptionValue"
      using sc answerValue_on_scale unfolding c by blast
    from sum_list_bounds [OF this] show ?thesis
      by (simp add: withinCategoryRange_def c v catScore_sum_list)
  qed
  show ?thesis
    using s(1) cats bound by (auto simp: answerValue_cases)
qed

lemma partialState_on_scale:
  "answers partialState i = Some v \<Longrightarrow> v \<in> set optionValues"
  by (simp add: partialState_def resultState_def optionValues_def split: if_splits)

text \<open>The partly filled sample stays within the range in all four categories.\<close>

theorem summary_total_and_bounded_on_scale_witness:
  "(step partialState = Result \<or> step partialState = Diagnosing) \<and>
   (\<exists>s. localSummary sampleQuestions sampleInfo partialState = Some s \<and>
        map category (summary s) = categories \<and>
        map (withinCategoryRange sampleQuestions) (summary s) = [True, True, True, True])"
proof -
  have h: "step partialState = Result \<or> step partialState = Diagnosing"
    by (simp add: partialState_def resultState_def)
  from summary_total_and_bounded_on_scale [OF h, of sampleQuestions sampleInfo]
  obtain s where s: "localSummary sampleQuestions sampleInfo partialState = Some s"
      "map category (summary s) = categories"
      "\<forall>r \<in> set (summary s).
         (\<forall>q \<in> set (catQuestions sampleQuestions (category r)).
            \<forall>v. answers partialState (id_q q) = Some v \<longrightarrow> v \<in> set optionValues)
         \<longrightarrow> withinCategoryRange sampleQuestions r"
    by blast
  have "\<forall>r \<in> set (summary s). withinCategoryRange sampleQuestions r"
    using s(3) partialState_on_scale by simp
  moreover have "length (summary s) = 4"
    using arg_cong [OF s(2), of length] by (simp add: categories_def)
  ultimately have "map (withinCategoryRange sampleQuestions) (summary s) = [True, True, True, True]"
    by (auto simp: list_eq_iff_nth_eq less_Suc_eq numeral_eq_Suc)
  with h s(1,2) show ?thesis
    by simp
qed

section \<open>C6: the fallback table covers every score\<close>

text \<open>
  Claim C6. For every integer total from 0 to the maximum total of 60 the fallback id is
  one of the six persona ids, and the four bands 0-20, 21-37, 38-47 and 48-60 leave no
  score uncovered. The id is a function of the total only.
\<close>

theorem fallback_covers_every_score:
  assumes "0 \<le> t" and "t \<le> maxTotal"
  shows "fallbackId t \<in> set personaIds \<and>
         (fallbackId t = ''pioneer'') = (t \<in> {0..20}) \<and>
         (fallbackId t = ''neighbor'') = (t \<in> {21..37}) \<and>
         (fallbackId t = ''statue'') = (t \<in> {38..47}) \<and>
         (fallbackId t = ''charmer'') = (t \<in> {48..maxTotal})"
  using assms by (auto simp: fallbackId_def personaIds_def)

text \<open>The ends of the four bands, and a total of 30 in the middle band.\<close>

theorem fallback_covers_every_score_witness:
  "maxTotal = 60 \<and> fallbackId 30 \<in> set personaIds \<and>
   fallbackId 0 = ''pioneer'' \<and> fallbackId 20 = ''pioneer'' \<and>
   fallbackId 21 = ''neighbor'' \<and> fallbackId 30 = ''neighbor'' \<and> fallbackId 37 = ''neighbor'' \<and>
   fallbackId 38 = ''statue'' \<and> fallbackId 47 = ''statue'' \<and>
   fallbackId 48 = ''charmer'' \<and> fallbackId 60 = ''charmer''"
proof -
  have m: "maxTotal = 60"
    by (simp add: maxTotal_def categories_def questionsPerCategory_def maxOptionValue_def)
  have h: "0 \<le> t \<and> t \<le> maxTotal" if "t \<in> {0, 20, 21, 30, 37, 38, 47, 48, 60}" for t
    using that by (auto simp: m)
  have "(0::int) \<le> 30 \<and> 30 \<le> maxTotal"
    by (simp add: m)
  then have "fallbackId 30 \<in> set personaIds"
    using fallback_covers_every_score [of 30] by blast
  moreover have "fallbackId 0 = ''pioneer''" "fallbackId 20 = ''pioneer''"
    using fallback_covers_every_score [of 0] fallback_covers_every_score [of 20]
      h [of 0] h [of 20] by simp_all
  moreover have "fallbackId 21 = ''neighbor''" "fallbackId 30 = ''neighbor''"
      "fallbackId 37 = ''neighbor''"
    using fallback_covers_every_score [of 21] fallback_covers_every_score [of 30]
      fallback_covers_every_score [of 37] h [of 21] h [of 30] h [of 37] by simp_all
  moreover have "fallbackId 38 = ''statue''" "fallbackId 47 = ''statue''"
    using fallback_covers_every_score [of 38] fallback_covers_every_score [of 47]
      h [of 38] h [of 47] by simp_all
  moreover have "fallbackId 48 = ''charmer''" "fallbackId 60 = ''charmer''"
    using fallback_covers_every_score [of 48] fallback_covers_every_score [of 60]
      h [of 48] h [of 60] by (simp_all add: m)
  ultimately show ?thesis
    using m by blast
qed

section \<open>C7: the ceiling\<close>

lemma sum_list_const:
  assumes "\<forall>x \<in> set xs. f x = (k::int)"
  shows "sum_list (map f xs) = int (length xs) * k"
  using assms by (induction xs) (auto simp: algebra_simps)

lemma catScore_all_max:
  assumes "\<forall>q \<in> set QUESTIONS. category_q q = cat \<longrightarrow> ans (id_q q) = Some maxOptionValue"
  shows "catScore QUESTIONS ans cat = int (length (catQuestions QUESTIONS cat)) * maxOptionValue"
proof -
  have "answerValue (ans (id_q q)) = maxOptionValue"
    if "q \<in> set (catQuestions QUESTIONS cat)" for q
  proof -
    from that have "q \<in> set QUESTIONS" and "category_q q = cat"
      by (simp_all add: catQuestions_def)
    with assms have "ans (id_q q) = Some maxOptionValue"
      by blast
    then show ?thesis
      by (simp add: answerValue_def maxOptionValue_def)
  qed
  then have "\<forall>q \<in> set (catQuestions QUESTIONS cat). answerValue (ans (id_q q)) = maxOptionValue"
    by blast
  from sum_list_const [OF this] show ?thesis
    by (simp add: catScore_sum_list)
qed

lemma summary_entry_for:
  assumes "localSummary QUESTIONS CATEGORY_INFO st = Some s"
  shows "dimensionResult QUESTIONS CATEGORY_INFO (answers st) cat \<in> set (summary s)"
    and "\<forall>r \<in> set (summary s). category r = cat \<longrightarrow>
           r = dimensionResult QUESTIONS CATEGORY_INFO (answers st) cat"
proof -
  have "cat \<in> set categories"
    by (cases cat) (simp_all add: categories_def)
  then show "dimensionResult QUESTIONS CATEGORY_INFO (answers st) cat \<in> set (summary s)"
    by (simp add: localSummary_SomeD(1) [OF assms])
  show "\<forall>r \<in> set (summary s). category r = cat \<longrightarrow>
           r = dimensionResult QUESTIONS CATEGORY_INFO (answers st) cat"
    by (auto simp: localSummary_SomeD(1) [OF assms] category_dimensionResult)
qed

text \<open>
  Claim C7. If every question of a category is answered with the top option value 3, and
  the category has the bank's five questions, then the one result of that category in the
  summary has score (number of questions in the category) times 3 and level green.
\<close>

theorem max_answers_reach_ceiling_and_green:
  assumes "step st = Result \<or> step st = Diagnosing"
    and "\<forall>q \<in> set QUESTIONS. category_q q = cat \<longrightarrow> answers st (id_q q) = Some maxOptionValue"
    and "length (catQuestions QUESTIONS cat) = questionsPerCategory"
  shows "\<exists>s r. localSummary QUESTIONS CATEGORY_INFO st = Some s \<and>
               r \<in> set (summary s) \<and> category r = cat \<and>
               (\<forall>r' \<in> set (summary s). category r' = cat \<longrightarrow> r' = r) \<and>
               score r = int (length (catQuestions QUESTIONS cat)) * maxOptionValue \<and>
               level r = GreenLight"
proof -
  obtain s where s: "localSummary QUESTIONS CATEGORY_INFO st = Some s"
    using localSummary_Some [OF assms(1), of QUESTIONS CATEGORY_INFO] by simp
  let ?r = "dimensionResult QUESTIONS CATEGORY_INFO (answers st) cat"
  have sc: "score ?r = int (length (catQuestions QUESTIONS cat)) * maxOptionValue"
    by (simp add: score_dimensionResult catScore_all_max [OF assms(2)])
  have "score ?r = 15"
    by (simp add: sc assms(3) questionsPerCategory_def maxOptionValue_def)
  then have lv: "level ?r = GreenLight"
    by (simp add: level_dimensionResult score_dimensionResult levelOf_def)
  have 1: "?r \<in> set (summary s)"
    by (rule summary_entry_for(1) [OF s])
  have 2: "\<forall>r' \<in> set (summary s). category r' = cat \<longrightarrow> r' = ?r"
    by (rule summary_entry_for(2) [OF s])
  have 3: "category ?r = cat"
    by (rule category_dimensionResult)
  from s 1 2 3 sc lv show ?thesis
    by blast
qed

text \<open>The second category alone answered with 3 throughout: score 15, green.\<close>

theorem max_answers_reach_ceiling_and_green_witness:
  "(step hairOnlyState = Result \<or> step hairOnlyState = Diagnosing) \<and>
   map (answers hairOnlyState) [6, 7, 8, 9, 10] = replicate 5 (Some maxOptionValue) \<and>
   length (catQuestions sampleQuestions Hairstyle) = questionsPerCategory \<and>
   (\<exists>s r. localSummary sampleQuestions sampleInfo hairOnlyState = Some s \<and>
          r \<in> set (summary s) \<and> category r = Hairstyle \<and> score r = 15 \<and>
          level r = GreenLight)"
proof -
  have h1: "step hairOnlyState = Result \<or> step hairOnlyState = Diagnosing"
    by (simp add: hairOnlyState_def resultState_def)
  have h2: "\<forall>q \<in> set sampleQuestions.
      category_q q = Hairstyle \<longrightarrow> answers hairOnlyState (id_q q) = Some maxOptionValue"
    by (simp add: sampleQuestions_def questionsOf_def hairOnlyState_def resultState_def
        answerAll_def maxOptionValue_def)
  have h3: "length (catQuestions sampleQuestions Hairstyle) = questionsPerCategory"
    by (simp add: catQuestions_def sampleQuestions_def questionsOf_def questionsPerCategory_def)
  from max_answers_reach_ceiling_and_green [OF h1 h2 h3, of sampleInfo]
  obtain s r where "localSummary sampleQuestions sampleInfo hairOnlyState = Some s"
      "r \<in> set (summary s)" "category r = Hairstyle"
      "score r = int (length (catQuestions sampleQuestions Hairstyle)) * maxOptionValue"
      "level r = GreenLight"
    by blast
  then have "\<exists>s r. localSummary sampleQuestions sampleInfo hairOnlyState = Some s \<and>
          r \<in> set (summary s) \<and> category r = Hairstyle \<and> score r = 15 \<and>
          level r = GreenLight"
    by (auto simp: h3 questionsPerCategory_def maxOptionValue_def)
  moreover have "map (answers hairOnlyState) [6, 7, 8, 9, 10] = replicate 5 (Some maxOptionValue)"
    by (simp add: hairOnlyState_def resultState_def answerAll_def maxOptionValue_def
        numeral_eq_Suc)
  ultimately show ?thesis
    using h1 h3 by blast
qed

section \<open>C8: each category is classified on its own\<close>

text \<open>
  Claim C8. If two states agree on the answers to every question of a category, whatever
  they hold for the other questions, then the two summaries give that category the same
  score and the same level; the level is the threshold function of the category's own
  score.
\<close>

theorem category_result_depends_on_own_answers:
  assumes "step st1 = Result \<or> step st1 = Diagnosing"
    and "step st2 = Result \<or> step st2 = Diagnosing"
    and "\<forall>q \<in> set QUESTIONS. category_q q = cat \<longrightarrow> answers st1 (id_q q) = answers st2 (id_q q)"
  shows "\<exists>s1 s2 r1 r2.
           localSummary QUESTIONS CATEGORY_INFO st1 = Some s1 \<and>
           localSummary QUESTIONS CATEGORY_INFO st2 = Some s2 \<and>
           r1 \<in> set (summary s1) \<and> category r1 = cat \<and>
           (\<forall>r \<in> set (summary s1). category r = cat \<longrightarrow> r = r1) \<and>
           r2 \<in> set (summary s2) \<and> category r2 = cat \<and>
           (\<forall>r \<in> set (summary s2). category r = cat \<longrightarrow> r = r2) \<and>
           score r1 = score r2 \<and> level r1 = level r2 \<and>
           level r1 = levelOf (score r1)"
proof -
  obtain s1 where s1: "localSummary QUESTIONS CATEGORY_INFO st1 = Some s1"
    using localSummary_Some [OF assms(1), of QUESTIONS CATEGORY_INFO] by simp
  obtain s2 where s2: "localSummary QUESTIONS CATEGORY_INFO st2 = Some s2"
    using localSummary_Some [OF assms(2), of QUESTIONS CATEGORY_INFO] by simp
  let ?r1 = "dimensionResult QUESTIONS CATEGORY_INFO (answers st1) cat"
  let ?r2 = "dimensionResult QUESTIONS CATEGORY_INFO (answers st2) cat"
  have "map (\<lambda>q. answerValue (answers st1 (id_q q))) (catQuestions QUESTIONS cat)
      = map (\<lambda>q. answerValue (answers st2 (id_q q))) (catQuestions QUESTIONS cat)"
    using assms(3) by (intro map_cong refl) (simp add: catQuestions_def)
  then have eq: "catScore QUESTIONS (answers st1) cat = catScore QUESTIONS (answers st2) cat"
    by (simp only: catScore_sum_list)
  have a: "score ?r1 = score ?r2"
    by (simp add: score_dimensionResult eq)
  have b: "level ?r1 = level ?r2"
    by (simp add: level_dimensionResult eq)
  have c: "level ?r1 = levelOf (score ?r1)"
    by (simp add: level_dimensionResult score_dimensionResult)
  have d1: "?r1 \<in> set (summary s1)" and d2: "?r2 \<in> set (summary s2)"
    by (rule summary_entry_for(1) [OF s1], rule summary_entry_for(1) [OF s2])
  have e1: "\<forall>r \<in> set (summary s1). category r = cat \<longrightarrow> r = ?r1"
    by (rule summary_entry_for(2) [OF s1])
  have e2: "\<forall>r \<in> set (summary s2). category r = cat \<longrightarrow> r = ?r2"
    by (rule summary_entry_for(2) [OF s2])
  have f1: "category ?r1 = cat" and f2: "category ?r2 = cat"
    by (rule category_dimensionResult)+
  from s1 s2 a b c d1 d2 e1 e2 f1 f2 show ?thesis
    by blast
qed

lemma mixed_scores:
  "catScore sampleQuestions (answers mixedState) Complexion = 14"
  "catScore sampleQuestions (answers mixedState) Hairstyle = 8"
  "catScore sampleQuestions (answers mixedState) Outfit = 8"
  "catScore sampleQuestions (answers mixedState) SocialImage = 8"
  "catScore sampleQuestions (answers firstOnlyState) Complexion = 14"
  "catScore sampleQuestions (answers firstOnlyState) Hairstyle = 0"
  "catScore sampleQuestions (answers firstOnlyState) Outfit = 0"
  "catScore sampleQuestions (answers firstOnlyState) SocialImage = 0"
  by (simp_all add: catScore_def catQuestions_def sampleQuestions_def questionsOf_def
      mixedState_def firstOnlyState_def resultState_def answerValue_def)

text \<open>The mixed case against the state with only the first category answered: the first
  category scores 14 and is green in both, while the totals are 38 and 14.\<close>

theorem category_result_depends_on_own_answers_witness:
  "(step mixedState = Result \<or> step mixedState = Diagnosing) \<and>
   (step firstOnlyState = Result \<or> step firstOnlyState = Diagnosing) \<and>
   map (answers mixedState) [1, 2, 3, 4, 5] = map (answers firstOnlyState) [1, 2, 3, 4, 5] \<and>
   (\<exists>s1 s2 r1 r2.
      localSummary sampleQuestions sampleInfo mixedState = Some s1 \<and>
      localSummary sampleQuestions sampleInfo firstOnlyState = Some s2 \<and>
      r1 \<in> set (summary s1) \<and> category r1 = Complexion \<and>
      r2 \<in> set (summary s2) \<and> category r2 = Complexion \<and>
      score r1 = 14 \<and> score r2 = 14 \<and> level r1 = GreenLight \<and> level r2 = GreenLight \<and>
      map level (summary s1) = [GreenLight, YellowLight, YellowLight, YellowLight] \<and>
      totalScore s1 = 38 \<and> totalScore s2 = 14)"
proof -
  have h1: "step mixedState = Result \<or> step mixedState = Diagnosing"
    by (simp add: mixedState_def resultState_def)
  have h2: "step firstOnlyState = Result \<or> step firstOnlyState = Diagnosing"
    by (simp add: firstOnlyState_def resultState_def)
  have h3: "\<forall>q \<in> set sampleQuestions.
      category_q q = Complexion \<longrightarrow>
      answers mixedState (id_q q) = answers firstOnlyState (id_q q)"
    by (simp add: sampleQuestions_def questionsOf_def mixedState_def firstOnlyState_def
        resultState_def)
  from category_result_depends_on_own_answers [OF h1 h2 h3, of sampleInfo]
  obtain s1 s2 r1 r2 where
    s: "localSummary sampleQuestions sampleInfo mixedState = Some s1"
       "localSummary sampleQuestions sampleInfo firstOnlyState = Some s2"
    and r: "r1 \<in> set (summary s1)" "category r1 = Complexion"
       "r2 \<in> set (summary s2)" "category r2 = Complexion"
    and u: "\<forall>r \<in> set (summary s1). category r = Complexion \<longrightarrow> r = r1"
    and e: "score r1 = score r2" "level r1 = level r2" "level r1 = levelOf (score r1)"
    by blast
  have "r1 = dimensionResult sampleQuestions sampleInfo (answers mixedState) Complexion"
    using u summary_entry_for(1) [OF s(1), of Complexion] category_dimensionResult by blast
  then have v: "score r1 = 14"
    by (simp add: score_dimensionResult mixed_scores)
  have l: "level r1 = GreenLight"
    by (simp add: e(3) v levelOf_def)
  have m: "map level (summary s1) = [GreenLight, YellowLight, YellowLight, YellowLight]"
    by (simp add: localSummary_SomeD(1) [OF s(1)] categories_def level_dimensionResult
        mixed_scores levelOf_def)
  have t: "totalScore s1 = 38" "totalScore s2 = 14"
    by (simp_all add: localSummary_SomeD(2) [OF s(1)] localSummary_SomeD(2) [OF s(2)]
        categories_def mixed_scores)
  from s r e v l m t have "\<exists>s1 s2 r1 r2.
      localSummary sampleQuestions sampleInfo mixedState = Some s1 \<and>
      localSummary sampleQuestions sampleInfo firstOnlyState = Some s2 \<and>
      r1 \<in> set (summary s1) \<and> category r1 = Complexion \<and>
      r2 \<in> set (summary s2) \<and> category r2 = Complexion \<and>
      score r1 = 14 \<and> score r2 = 14 \<and> level r1 = GreenLight \<and> level r2 = GreenLight \<and>
      map level (summary s1) = [GreenLight, YellowLight, YellowLight, YellowLight] \<and>
      totalScore s1 = 38 \<and> totalScore s2 = 14"
    by (intro exI [of _ s1] exI [of _ s2] exI [of _ r1] exI [of _ r2]) simp
  moreover have "map (answers mixedState) [1, 2, 3, 4, 5] = map (answers firstOnlyState) [1, 2, 3, 4, 5]"
    by (simp add: mixedState_def firstOnlyState_def resultState_def)
  ultimately show ?thesis
    using h1 h2 by blast
qed

section \<open>C9: determinism\<close>

lemma runDiagnosis_forced:
  assumes "localSummary QUESTIONS CATEGORY_INFO st = Some ls"
  shows "\<exists>st'. runDiagnosis QUESTIONS CATEGORY_INFO True overrideKey now st = Returned st' \<and>
               aiAnalysis st' = Some (fallbackAnalysis ls)"
  using assms by (simp add: runDiagnosis_def Let_def)

lemma runDiagnosis_keeps_inputs:
  assumes "runDiagnosis QUESTIONS CATEGORY_INFO forceFallback overrideKey now st = Returned st' \<or>
           runDiagnosis QUESTIONS CATEGORY_INFO forceFallback overrideKey now st = CallsAi st'"
  shows "step st' = step st \<and> answers st' = answers st"
  using assms
  by (auto simp: runDiagnosis_def Let_def split: option.splits if_splits)

text \<open>
  Claim C9. For a fixed bank the summary is a function of the step and the answers map
  alone: two states that agree on these two cells give equal summaries, whatever the other
  cells and refs hold, and the summary recomputed after a diagnosis call has changed those
  cells is equal as well.
\<close>

theorem summary_reads_only_step_and_answers:
  assumes "step st1 = step st2" and "answers st1 = answers st2"
  shows "localSummary QUESTIONS CATEGORY_INFO st1 = localSummary QUESTIONS CATEGORY_INFO st2 \<and>
         (\<forall>st'. runDiagnosis QUESTIONS CATEGORY_INFO forceFallback overrideKey now st1 = Returned st' \<or>
                runDiagnosis QUESTIONS CATEGORY_INFO forceFallback overrideKey now st1 = CallsAi st'
            \<longrightarrow> localSummary QUESTIONS CATEGORY_INFO st' = localSummary QUESTIONS CATEGORY_INFO st2)"
proof -
  have 1: "localSummary QUESTIONS CATEGORY_INFO st1 = localSummary QUESTIONS CATEGORY_INFO st2"
    by (simp add: localSummary_def assms)
  have "localSummary QUESTIONS CATEGORY_INFO st' = localSummary QUESTIONS CATEGORY_INFO st2"
    if "runDiagnosis QUESTIONS CATEGORY_INFO forceFallback overrideKey now st1 = Returned st' \<or>
        runDiagnosis QUESTIONS CATEGORY_INFO forceFallback overrideKey now st1 = CallsAi st'" for st'
    using runDiagnosis_keeps_inputs [OF that] assms by (simp add: localSummary_def)
  with 1 show ?thesis
    by blast
qed

text \<open>Two states that differ in every cell but the step and the answers.\<close>

theorem summary_reads_only_step_and_answers_witness:
  "step partialState = step busyState \<and> answers partialState = answers busyState \<and>
   aiAnalysis partialState \<noteq> aiAnalysis busyState \<and>
   aiFetchingRef partialState \<noteq> aiFetchingRef busyState \<and>
   localSummary sampleQuestions sampleInfo partialState =
     localSummary sampleQuestions sampleInfo busyState \<and>
   (\<exists>st'. runDiagnosis sampleQuestions sampleInfo True [] 5000 partialState = Returned st' \<and>
          aiAnalysis st' \<noteq> aiAnalysis partialState \<and>
          localSummary sampleQuestions sampleInfo st' =
            localSummary sampleQuestions sampleInfo busyState)"
proof -
  have h1: "step partialState = step busyState"
    and h2: "answers partialState = answers busyState"
    and d: "aiAnalysis partialState \<noteq> aiAnalysis busyState"
       "aiFetchingRef partialState \<noteq> aiFetchingRef busyState"
    by (simp_all add: busyState_def partialState_def resultState_def)
  have ok: "step partialState = Result \<or> step partialState = Diagnosing"
    by (simp add: partialState_def resultState_def)
  obtain s where s: "localSummary sampleQuestions sampleInfo partialState = Some s"
    using localSummary_Some [OF ok, of sampleQuestions sampleInfo] by simp
  have n: "aiAnalysis partialState = None"
    by (simp add: partialState_def resultState_def)
  obtain st' where r: "runDiagnosis sampleQuestions sampleInfo True [] 5000 partialState = Returned st'"
    and a: "aiAnalysis st' \<noteq> aiAnalysis partialState"
    using runDiagnosis_forced [OF s, of "[]" 5000] by (auto simp: n)
  from summary_reads_only_step_and_answers [OF h1 h2, of sampleQuestions sampleInfo True "[]" 5000]
    h1 h2 d r a
  show ?thesis
    by blast
qed

section \<open>C10: the variants disagree\<close>

text \<open>
  Claim C10. The two variants are not equivalent. App.tsx reports green from 12 (of 15)
  and yellow from 7, the older variant green from 9 (of 12) and yellow from 5, and 12/15
  differs from 9/12; for the same three answers the first category is yellow in one and
  green in the other. App.tsx picks the fallback id by four bands, the older variant by the
  single cut at 36: a total of 40 gives \<^verbatim>\<open>statue\<close> against \<^verbatim>\<open>charmer\<close>, a total of 10
  gives \<^verbatim>\<open>pioneer\<close> against \<^verbatim>\<open>neighbor\<close>.
\<close>

theorem variants_disagree_on_levels_and_fallback:
  "(\<forall>sc. (levelOf sc = GreenLight) = (12 \<le> sc)) \<and>
   (\<forall>sc. (levelOf_part002 sc = GreenLight) = (9 \<le> sc)) \<and>
   (\<forall>sc. (levelOf sc = YellowLight) = (7 \<le> sc \<and> sc < 12)) \<and>
   (\<forall>sc. (levelOf_part002 sc = YellowLight) = (5 \<le> sc \<and> sc < 9)) \<and>
   categoryMax = 15 \<and> categoryMax_part002 = 12 \<and>
   12 * categoryMax_part002 \<noteq> 9 * categoryMax \<and>
   levelOf 9 = YellowLight \<and> levelOf_part002 9 = GreenLight \<and>
   map_option (map level \<circ> summary)
     (localSummary sampleQuestions sampleInfo threeAnswersState)
     = Some [YellowLight, RedLight, RedLight, RedLight] \<and>
   map_option (map level_v \<circ> summary_v)
     (localSummary_part002 sampleQuestions_part002 sampleInfo_part002 threeAnswersState)
     = Some [GreenLight, RedLight, RedLight, RedLight] \<and>
   (\<forall>t. (fallbackId_part002 t = ''charmer'') = (36 < t)) \<and>
   (\<forall>t. (fallbackId_part002 t = ''neighbor'') = (t \<le> 36)) \<and>
   (\<forall>t. (fallbackId t = ''charmer'') = (48 \<le> t)) \<and>
   fallbackId 40 = ''statue'' \<and> fallbackId_part002 40 = ''charmer'' \<and>
   fallbackId 10 = ''pioneer'' \<and> fallbackId_part002 10 = ''neighbor''"
proof -
  have lv: "\<forall>sc. (levelOf sc = GreenLight) = (12 \<le> sc)"
    "\<forall>sc. (levelOf_part002 sc = GreenLight) = (9 \<le> sc)"
    "\<forall>sc. (levelOf sc = YellowLight) = (7 \<le> sc \<and> sc < 12)"
    "\<forall>sc. (levelOf_part002 sc = YellowLight) = (5 \<le> sc \<and> sc < 9)"
    by (auto simp: levelOf_def levelOf_part002_def)
  have mx: "categoryMax = 15" "categoryMax_part002 = 12"
    by (simp_all add: categoryMax_def categoryMax_part002_def questionsPerCategory_def
        questionsPerCategory_part002_def maxOptionValue_def)
  have s1: "map_option (map level \<circ> summary)
     (localSummary sampleQuestions sampleInfo threeAnswersState)
     = Some [YellowLight, RedLight, RedLight, RedLight]"
    by (simp add: localSummary_def threeAnswersState_def resultState_def categories_def
        dimensionResult_def catScore_def catQuestions_def sampleQuestions_def questionsOf_def
        answerValue_def levelOf_def)
  have s2: "map_option (map level_v \<circ> summary_v)
     (localSummary_part002 sampleQuestions_part002 sampleInfo_part002 threeAnswersState)
     = Some [GreenLight, RedLight, RedLight, RedLight]"
    by (simp add: localSummary_part002_def threeAnswersState_def resultState_def
        categories_part002_def dimensionResult_part002_def catScore_def catQuestions_def
        sampleQuestions_part002_def questionsOf_def answerValue_def levelOf_part002_def)
  have fb: "\<forall>t. (fallbackId_part002 t = ''charmer'') = (36 < t)"
    "\<forall>t. (fallbackId_part002 t = ''neighbor'') = (t \<le> 36)"
    "\<forall>t. (fallbackId t = ''charmer'') = (48 \<le> t)"
    by (auto simp: fallbackId_part002_def fallbackId_def)
  have ex: "levelOf 9 = YellowLight" "levelOf_part002 9 = GreenLight"
    "fallbackId 40 = ''statue''" "fallbackId_part002 40 = ''charmer''"
    "fallbackId 10 = ''pioneer''" "fallbackId_part002 10 = ''neighbor''"
    by (simp_all add: levelOf_def levelOf_part002_def fallbackId_def fallbackId_part002_def)
  have fr: "12 * categoryMax_part002 \<noteq> 9 * categoryMax"
    by (simp add: mx)
  from lv mx fr s1 s2 fb ex show ?thesis
    by blast
qed

end
